theory Spec2Isabelle
  imports Complex_Main "HOL-Library.Product_Lexorder"
begin

section \<open>Dates\<close>

text \<open>
  A \<open>datetime.date\<close> is its three fields. \<open>date(y, m, d)\<close> raises ValueError unless
  \<open>1 \<le> y \<le> 9999\<close>, \<open>1 \<le> m \<le> 12\<close> and \<open>1 \<le> d \<le> days in that month\<close>; the model
  returns \<open>None\<close> there. The callers pass integers read from at most four digits, so the
  OverflowError of a C-int conversion cannot occur.
\<close>

record date =
  year :: int
  month :: int
  day :: int

definition is_leap :: "int \<Rightarrow> bool" where
  "is_leap y = (y mod 4 = 0 \<and> (y mod 100 \<noteq> 0 \<or> y mod 400 = 0))"

definition days_in_month :: "int \<Rightarrow> int \<Rightarrow> int" where
  "days_in_month y m =
     (if m = 2 then (if is_leap y then 29 else 28)
      else if m = 4 \<or> m = 6 \<or> m = 9 \<or> m = 11 then 30 else 31)"

definition date_valid :: "date \<Rightarrow> bool" where
  "date_valid dt =
     (1 \<le> year dt \<and> year dt \<le> 9999 \<and> 1 \<le> month dt \<and> month dt \<le> 12 \<and>
      1 \<le> day dt \<and> day dt \<le> days_in_month (year dt) (month dt))"

definition mk_date :: "int \<Rightarrow> int \<Rightarrow> int \<Rightarrow> date option" where
  "mk_date y m d =
     (let dt = \<lparr>year = y, month = m, day = d\<rparr>
      in if date_valid dt then Some dt else None)"

text \<open>Python compares two dates field by field: year, then month, then day.\<close>

definition date_less :: "date \<Rightarrow> date \<Rightarrow> bool" where
  "date_less a b =
     (year a < year b \<or> (year a = year b \<and>
        (month a < month b \<or> (month a = month b \<and> day a < day b))))"

definition date_le :: "date \<Rightarrow> date \<Rightarrow> bool" where
  "date_le a b = (date_less a b \<or> a = b)"

text \<open>
  The proleptic Gregorian ordinal (\<open>date.toordinal()\<close>): 0001-01-01 is day 1 and
  9999-12-31 is day 3652059.
\<close>

definition days_before_year :: "int \<Rightarrow> int" where
  "days_before_year y = (y - 1) * 365 + (y - 1) div 4 - (y - 1) div 100 + (y - 1) div 400"

definition days_before_month :: "int \<Rightarrow> int \<Rightarrow> int" where
  "days_before_month y m =
     (if m \<le> 1 then 0 else if m = 2 then 31
      else (if is_leap y then 1 else 0) +
        (if m = 3 then 59 else if m = 4 then 90 else if m = 5 then 120
         else if m = 6 then 151 else if m = 7 then 181 else if m = 8 then 212
         else if m = 9 then 243 else if m = 10 then 273 else if m = 11 then 304 else 334))"

definition toordinal :: "date \<Rightarrow> int" where
  "toordinal dt = days_before_year (year dt) + days_before_month (year dt) (month dt) + day dt"

definition max_ordinal :: int where
  "max_ordinal = 3652059"

text \<open>
  \<open>d < t + timedelta(days=n)\<close> and \<open>d > t + timedelta(days=n)\<close>. Python builds the date
  whose ordinal is \<open>t.toordinal() + n\<close>, raising OverflowError when that is not between 1
  and 3652059, and compares the two dates; valid dates compare as their ordinals do
  (\<open>date_less_iff_toordinal\<close> below), so the model compares ordinals. \<open>None\<close> is the
  OverflowError.
\<close>

definition shifted_in_range :: "date \<Rightarrow> int \<Rightarrow> bool" where
  "shifted_in_range t n = (1 \<le> toordinal t + n \<and> toordinal t + n \<le> max_ordinal)"

definition less_shifted :: "date \<Rightarrow> date \<Rightarrow> int \<Rightarrow> bool option" where
  "less_shifted d t n =
     (if shifted_in_range t n then Some (toordinal d < toordinal t + n) else None)"

definition greater_shifted :: "date \<Rightarrow> date \<Rightarrow> int \<Rightarrow> bool option" where
  "greater_shifted d t n =
     (if shifted_in_range t n then Some (toordinal d > toordinal t + n) else None)"

section \<open>Strings and integers\<close>

text \<open>
  Python text is modelled by \<open>string\<close>, one \<open>char\<close> per code point below 256; code
  points above are outside the model. The character classes below are the ASCII ones.
\<close>

definition is_space :: "char \<Rightarrow> bool" where
  "is_space c =
     (c \<in> set [CHR '' '', CHR 0x09, CHR 0x0A, CHR 0x0B, CHR 0x0C, CHR 0x0D,
                CHR 0x1C, CHR 0x1D, CHR 0x1E, CHR 0x1F, CHR 0x85, CHR 0xA0])"

definition strip :: "string \<Rightarrow> string" where
  "strip s = rev (dropWhile is_space (rev (dropWhile is_space s)))"

definition is_digit :: "char \<Rightarrow> bool" where
  "is_digit c = (c \<in> set ''0123456789'')"

definition is_upper_letter :: "char \<Rightarrow> bool" where
  "is_upper_letter c = (c \<in> set ''ABCDEFGHIJKLMNOPQRSTUVWXYZ'')"

definition is_lower_letter :: "char \<Rightarrow> bool" where
  "is_lower_letter c = (c \<in> set ''abcdefghijklmnopqrstuvwxyz'')"

definition isalpha :: "string \<Rightarrow> bool" where
  "isalpha s = (s \<noteq> [] \<and> list_all (\<lambda>c. is_upper_letter c \<or> is_lower_letter c) s)"

definition isupper :: "string \<Rightarrow> bool" where
  "isupper s = (list_ex is_upper_letter s \<and> \<not> list_ex is_lower_letter s)"

definition isdigit :: "string \<Rightarrow> bool" where
  "isdigit s = (s \<noteq> [] \<and> list_all is_digit s)"

definition upper_char :: "char \<Rightarrow> char" where
  "upper_char c =
     (case map_of (zip ''abcdefghijklmnopqrstuvwxyz'' ''ABCDEFGHIJKLMNOPQRSTUVWXYZ'') c of
        None \<Rightarrow> c | Some u \<Rightarrow> u)"

definition upper :: "string \<Rightarrow> string" where
  "upper s = map upper_char s"

text \<open>\<open>needle in hay\<close> on strings.\<close>

fun contains :: "string \<Rightarrow> string \<Rightarrow> bool" where
  "contains [] needle = (needle = [])"
| "contains (c # cs) needle =
     (take (length needle) (c # cs) = needle \<or> contains cs needle)"

text \<open>\<open>text.split('\n')\<close> and \<open>text.splitlines()\<close>.\<close>

fun split_nl_from :: "string \<Rightarrow> string \<Rightarrow> string list" where
  "split_nl_from cur [] = [cur]"
| "split_nl_from cur (c # cs) =
     (if c = CHR 0x0A then cur # split_nl_from [] cs else split_nl_from (cur @ [c]) cs)"

definition split_nl :: "string \<Rightarrow> string list" where
  "split_nl s = split_nl_from [] s"

definition is_linebreak :: "char \<Rightarrow> bool" where
  "is_linebreak c =
     (c \<in> set [CHR 0x0A, CHR 0x0B, CHR 0x0C, CHR 0x0D, CHR 0x1C, CHR 0x1D, CHR 0x1E, CHR 0x85])"

fun splitlines_from :: "string \<Rightarrow> string \<Rightarrow> string list" where
  "splitlines_from cur [] = (if cur = [] then [] else [cur])"
| "splitlines_from cur [c] = (if is_linebreak c then [cur] else [cur @ [c]])"
| "splitlines_from cur (c # d # cs) =
     (if c = CHR 0x0D \<and> d = CHR 0x0A then cur # splitlines_from [] cs
      else if is_linebreak c then cur # splitlines_from [] (d # cs)
      else splitlines_from (cur @ [c]) (d # cs))"

definition splitlines :: "string \<Rightarrow> string list" where
  "splitlines s = splitlines_from [] s"

fun join :: "string \<Rightarrow> string list \<Rightarrow> string" where
  "join sep [] = []"
| "join sep [x] = x"
| "join sep (x # y # ys) = x @ sep @ join sep (y # ys)"

definition quoted :: "string \<Rightarrow> string" where
  "quoted s = CHR 0x27 # s @ [CHR 0x27]"

text \<open>
  \<open>int(s)\<close> on a string: surrounding whitespace is dropped, one sign is allowed, then
  decimal digits with single underscores between them. \<open>None\<close> is the ValueError.
\<close>

definition digit_of :: "char \<Rightarrow> int option" where
  "digit_of c = map_of (zip ''0123456789'' [0, 1, 2, 3, 4, 5, 6, 7, 8, 9]) c"

fun int_digits :: "int \<Rightarrow> bool \<Rightarrow> string \<Rightarrow> int option" where
  "int_digits acc prev [] = (if prev then Some acc else None)"
| "int_digits acc prev (c # cs) =
     (if c = CHR ''_'' then (if prev \<and> cs \<noteq> [] then int_digits acc False cs else None)
      else (case digit_of c of
              None \<Rightarrow> None
            | Some d \<Rightarrow> int_digits (10 * acc + d) True cs))"

definition py_int :: "string \<Rightarrow> int option" where
  "py_int s =
     (case strip s of
        [] \<Rightarrow> None
      | c # cs \<Rightarrow>
          if c = CHR ''-'' then map_option uminus (int_digits 0 False cs)
          else if c = CHR ''+'' then int_digits 0 False cs
          else int_digits 0 False (c # cs))"

text \<open>\<open>str(n)\<close> for the integers that appear in messages, and \<open>str(date)\<close>.\<close>

fun str_nat :: "nat \<Rightarrow> string" where
  "str_nat n =
     (if n < 10 then [''0123456789'' ! n]
      else str_nat (n div 10) @ [''0123456789'' ! (n mod 10)])"

definition str_int :: "int \<Rightarrow> string" where
  "str_int i = (if i < 0 then CHR ''-'' # str_nat (nat (- i)) else str_nat (nat i))"

definition zero_pad :: "nat \<Rightarrow> string \<Rightarrow> string" where
  "zero_pad w s = replicate (w - length s) (CHR ''0'') @ s"

definition str_date :: "date \<Rightarrow> string" where
  "str_date dt =
     zero_pad 4 (str_int (year dt)) @ ''-'' @ zero_pad 2 (str_int (month dt)) @ ''-'' @
     zero_pad 2 (str_int (day dt))"

text \<open>
  Where the source interpolates the text of a caught exception (\<open>str(e)\<close>), the model
  inserts this placeholder: the interpreter's and the libraries' messages are not modelled.
\<close>

definition exc_text :: string where
  "exc_text = ''<exception>''"

section \<open>Extraction results\<close>

text \<open>
  The dataclass \<open>ExtractionResult\<close>. The \<open>float\<close> confidence is modelled as a real
  number: the model computes exactly, the rounding of IEEE doubles is outside it.
\<close>

record ExtractionResult =
  number :: "string option"
  issued_country :: "string option"
  expiration_date :: "date option"
  confidence :: real
  validation_errors :: "string list"
  warnings :: "string list"

text \<open>
  \<open>x or y\<close> yields \<open>x\<close> when \<open>x\<close> is truthy and \<open>y\<close> otherwise. \<open>None\<close> and the empty
  string are falsy; every \<open>date\<close> is truthy.
\<close>

definition or_str :: "string option \<Rightarrow> string option \<Rightarrow> string option" where
  "or_str x y = (case x of None \<Rightarrow> y | Some s \<Rightarrow> if s = [] then y else Some s)"

definition or_date :: "date option \<Rightarrow> date option \<Rightarrow> date option" where
  "or_date x y = (case x of None \<Rightarrow> y | Some d \<Rightarrow> Some d)"

definition merge_results :: "ExtractionResult \<Rightarrow> ExtractionResult \<Rightarrow> ExtractionResult" where
  "merge_results primary fallback =
     \<lparr>number = or_str (number primary) (number fallback),
      issued_country = or_str (issued_country primary) (issued_country fallback),
      expiration_date = or_date (expiration_date primary) (expiration_date fallback),
      confidence = min (confidence primary) (confidence fallback),
      validation_errors = validation_errors primary @ validation_errors fallback,
      warnings = warnings primary @ warnings fallback\<rparr>"

definition is_complete :: "ExtractionResult \<Rightarrow> bool" where
  "is_complete r = (number r \<noteq> None \<and> issued_country r \<noteq> None \<and> expiration_date r \<noteq> None)"

definition is_valid :: "ExtractionResult \<Rightarrow> bool" where
  "is_valid r = (length (validation_errors r) = 0)"










section \<open>Strategy objects\<close>

text \<open>Exceptions are values; the string is the message or the name involved.\<close>

datatype error =
  ValueError string
  | AttributeError string
  | TypeError string
  | IndexError string
  | LibraryError string

text \<open>The concrete subclasses of \<open>DocumentExtractionStrategy\<close>.\<close>

datatype strategy_class =
  MRZStrategy
  | ESPassportStrategy
  | EGYPassportStrategy
  | USPassportStrategy
  | VisaStrategy
  | EUGenericStrategy
  | GenericStrategy
  | IDCardStrategy

text \<open>
  The attributes \<open>_validation_errors\<close>, \<open>_warnings\<close> and \<open>_confidence\<close> of a strategy
  instance, which its \<open>extract\<close> reads and writes, and the instance itself with its
  \<open>_fallback_strategy\<close> reference. Instances are mutable and shared by reference, so
  they live in a store and are named by their address.
\<close>

record bookkeeping =
  s_validation_errors :: "string list"
  s_warnings :: "string list"
  s_confidence :: real

record strategy =
  cls :: strategy_class
  book :: bookkeeping
  fallback_strategy :: "nat option"

record heap =
  objs :: "nat \<Rightarrow> strategy"
  next_addr :: nat

definition init_book :: bookkeeping where
  "init_book = \<lparr>s_validation_errors = [], s_warnings = [], s_confidence = 1\<rparr>"

definition init_strategy :: "strategy_class \<Rightarrow> strategy" where
  "init_strategy c = \<lparr>cls = c, book = init_book, fallback_strategy = None\<rparr>"

definition empty_heap :: heap where
  "empty_heap = \<lparr>objs = (\<lambda>_. init_strategy GenericStrategy), next_addr = 0\<rparr>"

text \<open>Instantiating a class: \<open>__init__\<close> runs on a fresh object.\<close>

definition new_strategy :: "strategy_class \<Rightarrow> heap \<Rightarrow> nat \<times> heap" where
  "new_strategy c h =
     (next_addr h,
      h\<lparr>objs := (objs h)(next_addr h := init_strategy c), next_addr := Suc (next_addr h)\<rparr>)"

definition add_fallback_strategy :: "nat \<Rightarrow> nat \<Rightarrow> heap \<Rightarrow> heap" where
  "add_fallback_strategy self strat h =
     h\<lparr>objs := (objs h)(self := (objs h self)\<lparr>fallback_strategy := Some strat\<rparr>)\<rparr>"

definition set_book :: "nat \<Rightarrow> bookkeeping \<Rightarrow> heap \<Rightarrow> heap" where
  "set_book p bk h = h\<lparr>objs := (objs h)(p := (objs h p)\<lparr>book := bk\<rparr>)\<rparr>"

text \<open>
  \<open>strategy.extract(text, mrz_data, file_path=file_path)\<close> with the three arguments
  fixed: it dispatches on the class of the instance, reads and writes the instance's
  bookkeeping and returns a result or raises.
\<close>

type_synonym extractor =
  "strategy_class \<Rightarrow> bookkeeping \<Rightarrow> (error + ExtractionResult) \<times> bookkeeping"

text \<open>
  The \<open>while strategy:\<close> loop of \<open>chain_strategies\<close>. \<open>vis\<close> records the addresses of
  the instances whose \<open>extract\<close> has been called, in order; it is not in the source and
  does not influence the run. A cyclic chain never leaves the loop: the value is \<open>None\<close>.
\<close>

partial_function (option) chain_loop ::
  "extractor \<Rightarrow> heap \<Rightarrow> nat option \<Rightarrow> nat list \<Rightarrow> ExtractionResult list
     \<Rightarrow> (nat list \<times> (error + ExtractionResult list) \<times> heap) option" where
  "chain_loop ex h cur vis results =
     (case cur of
        None \<Rightarrow> Some (vis, Inr results, h)
      | Some p \<Rightarrow>
          (case ex (cls (objs h p)) (book (objs h p)) of
             (Inl e, bk) \<Rightarrow> Some (vis @ [p], Inl e, set_book p bk h)
           | (Inr r, bk) \<Rightarrow>
               chain_loop ex (set_book p bk h)
                 (fallback_strategy (objs (set_book p bk h) p)) (vis @ [p]) (results @ [r])))"

definition chain_strategies ::
  "extractor \<Rightarrow> heap \<Rightarrow> nat \<Rightarrow> (nat list \<times> (error + ExtractionResult) \<times> heap) option" where
  "chain_strategies ex h self =
     (case chain_loop ex h (Some self) [] [] of
        None \<Rightarrow> None
      | Some (vis, Inl e, h') \<Rightarrow> Some (vis, Inl e, h')
      | Some (vis, Inr results, h') \<Rightarrow>
          (case results of
             [] \<Rightarrow> Some (vis, Inl (IndexError ''list index out of range''), h')
           | r # rs \<Rightarrow> Some (vis, Inr (foldl merge_results r rs), h')))"

text \<open>\<open>reaches h p q\<close>: following \<open>_fallback_strategy\<close> references from \<open>p\<close> arrives at \<open>q\<close>.\<close>

inductive reaches :: "heap \<Rightarrow> nat \<Rightarrow> nat \<Rightarrow> bool" for h where
  reaches_self: "reaches h p p"
| reaches_fallback:
    "fallback_strategy (objs h p) = Some q \<Longrightarrow> reaches h q r \<Longrightarrow> reaches h p r"

text \<open>\<open>str.lower()\<close> on ASCII text.\<close>

definition lower_char :: "char \<Rightarrow> char" where
  "lower_char c =
     (case map_of (zip ''ABCDEFGHIJKLMNOPQRSTUVWXYZ'' ''abcdefghijklmnopqrstuvwxyz'') c of
        None \<Rightarrow> c | Some l \<Rightarrow> l)"

definition lower :: "string \<Rightarrow> string" where
  "lower s = map lower_char s"

definition STRATEGY_REGISTRY :: "(string \<times> strategy_class) list" where
  "STRATEGY_REGISTRY =
     [(''MRZ'', MRZStrategy), (''ESP'', ESPassportStrategy), (''EGY'', EGYPassportStrategy),
      (''EU'', EUGenericStrategy), (''USA'', USPassportStrategy), (''GEN'', GenericStrategy),
      (''VISA'', VisaStrategy), (''ID'', IDCardStrategy)]"

definition get_strategy :: "string \<Rightarrow> heap \<Rightarrow> nat \<times> heap" where
  "get_strategy doc_type h0 =
     (let doc_type_lower = lower doc_type in
      if doc_type_lower = ''passport'' then
        (let (mrz, h1) = new_strategy MRZStrategy h0;
             (es, h2) = new_strategy ESPassportStrategy h1;
             h3 = add_fallback_strategy mrz es h2;
             (eg, h4) = new_strategy EGYPassportStrategy h3;
             h5 = add_fallback_strategy mrz eg h4;
             (eu, h6) = new_strategy EUGenericStrategy h5;
             h7 = add_fallback_strategy mrz eu h6;
             (us, h8) = new_strategy USPassportStrategy h7;
             h9 = add_fallback_strategy mrz us h8;
             (gen, h10) = new_strategy GenericStrategy h9;
             h11 = add_fallback_strategy mrz gen h10
         in (mrz, h11))
      else if doc_type_lower = ''visa'' then new_strategy VisaStrategy h0
      else if doc_type_lower \<in> set [''id'', ''id_card'', ''drivers_license'']
        then new_strategy IDCardStrategy h0
      else (case map_of STRATEGY_REGISTRY doc_type of
              Some c \<Rightarrow> new_strategy c h0
            | None \<Rightarrow> new_strategy GenericStrategy h0))"

definition passport_chain :: "nat \<times> heap" where
  "passport_chain = get_strategy ''passport'' empty_heap"


section \<open>External libraries\<close>

text \<open>
  The regular expressions of the source, by the place they are written. The engine
  (\<open>re\<close>) is an external library: the model takes its answers as given.
  \<^item> \<open>DATE_DMY\<close>: \<^verbatim>\<open>^([0-3]?\d)[/\-\.]_?([01]?\d)[/\-\.]_?(\d{4})$\<close>
  \<^item> \<open>DATE_MDY\<close>: \<^verbatim>\<open>^([01]?\d)[/\-\.]_?([0-3]?\d)[/\-\.]_?(\d{4})$\<close>
  \<^item> \<open>DATE_YMD\<close>: \<^verbatim>\<open>^(\d{4})[/\-\.]_?([01]?\d)[/\-\.]_?([0-3]?\d)$\<close>
  \<^item> \<open>DATE_YYMMDD\<close>: \<^verbatim>\<open>^(\d{2})([01]\d)([0-3]\d)$\<close>
  \<^item> \<open>DATE_DD_MON_YYYY\<close>: \<^verbatim>\<open>^([0-3]?\d)\s+([A-Za-z]{3,})\s+(\d{4})$\<close>
  \<^item> \<open>NUM_PASSPORT\<close>: \<^verbatim>\<open>^[A-Z0-9]{6,10}$\<close>
  \<^item> \<open>NUM_ID_CARD\<close>, also used for "generic": \<^verbatim>\<open>^[A-Z0-9]{6,12}$\<close>
  \<^item> \<open>NUM_VISA\<close>: \<^verbatim>\<open>^[0-9]{8,9}$\<close>
  \<^item> \<open>ES_NUM_RE\<close>: \<^verbatim>\<open>\b[A-Z]\d{7}[A-Z]\b\<close>
  \<^item> \<open>EGY_NUM_RE\<close>: \<^verbatim>\<open>\b[A-Z]\d{8}\b\<close>
  \<^item> \<open>EGY_EXP_RE\<close>: \<^verbatim>\<open>\d([A-Z]{3})\d{7}(\d{2})(\d{2})(\d{2})\<close>
  \<^item> \<open>EGY_MRZ_LINE_RE\<close>: \<^verbatim>\<open>P<EGY.*?<<.*?<<.*?$\<close>, MULTILINE
  \<^item> \<open>US_MRZ_LINE\<close>: \<^verbatim>\<open>P<USA.*?<<.*?<<.*?$\<close>, MULTILINE
  \<^item> \<open>US_NUM\<close>: \<^verbatim>\<open>\b[A-Z]\d{8}\b\<close>
  \<^item> \<open>US_EXP\<close>: \<^verbatim>\<open>\d{2}(\d{2})(\d{2})(\d{2})\<close>
  \<^item> \<open>EU_NUM_RE\<close>: \<^verbatim>\<open>[CDEFGL][0-9A-Z]{8}\<close>
  \<^item> \<open>EU_EXP_RE\<close>: \<^verbatim>\<open>(?:G\xfcltig\s+bis|Valable\s+jusqu\'au|Valido\s+Hasta)[:\s]*([0-3]?\d[\./][01]?\d[\./]\d{2,4})\<close>,
    IGNORECASE
  \<^item> \<open>GEN_NUM k\<close>: the \<open>k\<close>-th entry of \<open>GenericStrategy._NUM_PATTERNS\<close>, from 0
  \<^item> \<open>GEN_MRZ_COUNTRY k\<close>: \<^verbatim>\<open>P<([A-Z]{3})\<close>, \<^verbatim>\<open>([A-Z]{3})<\<close>, \<^verbatim>\<open>([A-Z]{3})\d{9}\<close>
  \<^item> \<open>GEN_HEADER k\<close>: \<^verbatim>\<open>(?:PASSPORT|ID\s+CARD|DOCUMENT)\s+OF\s+([A-Z]{3})\<close>,
    \<^verbatim>\<open>([A-Z]{3})\s+(?:PASSPORT|ID\s+CARD|DOCUMENT)\<close>, \<^verbatim>\<open>ISSUED\s+BY\s+([A-Z]{3})\<close>, IGNORECASE
  \<^item> \<open>GEN_COUNTRY_RE\<close>: the eight country keywords joined by \<open>|\<close> in a non-capturing
    group, then \<^verbatim>\<open>\s*[:\s]*([A-Z]{3})\<close>, IGNORECASE
  \<^item> \<open>GEN_GENERIC_RE\<close>: \<^verbatim>\<open>\b([A-Z]{3})\b\<close>
  \<^item> \<open>GEN_ALPHA3\<close>: \<^verbatim>\<open>^[A-Z]{3}$\<close>
  \<^item> \<open>FULL_NUM\<close>: \<^verbatim>\<open>(?P<d>[0-3]?\d)[\s\./\-](?P<m>[01]?\d)[\s\./\-](?P<y>\d{2,4})\<close>, IGNORECASE
  \<^item> \<open>NAME_MID\<close>: \<^verbatim>\<open>(?P<d>[0-3]?\d)?[\s\-\/\.]?(?P<mname>[A-Z]{3,5})[\s\-\/\.]?(?P<y>\d{2,4})\<close>,
    IGNORECASE
  \<^item> \<open>YEAR_ONLY\<close>: \<^verbatim>\<open>\b(20\d{2})\b\<close>
  \<^item> \<open>DD_MON_YYYY\<close>: \<^verbatim>\<open>(?P<d>[0-3]?\d)\s+(?P<mname>[A-Z]{3,5})\s+(?P<y>\d{4})\<close>, IGNORECASE
  \<^item> \<open>KEYWORD_RE\<close>: the nine escaped expiry keywords joined by \<open>|\<close>, IGNORECASE
  \<^item> \<open>WHITESPACE_RUN\<close>: \<^verbatim>\<open>\s+\<close>
  \<^item> \<open>DATE_LIKE_RE\<close>:
    \<^verbatim>\<open>\b(\d{1,2}[\s\./-][A-Za-z]{3,}|\d{1,2}[\s\./-]\d{1,2}[\s\./-]\d{2,4}|[A-Za-z]{3,}\s+\d{4}|\d{4})\b\<close>
\<close>

datatype regex =
  DATE_DMY | DATE_MDY | DATE_YMD | DATE_YYMMDD | DATE_DD_MON_YYYY
  | NUM_PASSPORT | NUM_ID_CARD | NUM_VISA
  | ES_NUM_RE
  | EGY_NUM_RE | EGY_EXP_RE | EGY_MRZ_LINE_RE
  | US_MRZ_LINE | US_NUM | US_EXP
  | EU_NUM_RE | EU_EXP_RE
  | GEN_NUM nat | GEN_MRZ_COUNTRY nat | GEN_HEADER nat | GEN_COUNTRY_RE | GEN_GENERIC_RE
  | GEN_ALPHA3
  | FULL_NUM | NAME_MID | YEAR_ONLY | DD_MON_YYYY | KEYWORD_RE | WHITESPACE_RUN | DATE_LIKE_RE

text \<open>
  A match object: where the match ends, the groups (\<open>m_groups ! 0\<close> is the whole match,
  \<open>m_groups ! k\<close> is \<open>group(k)\<close>, \<open>None\<close> for a group that did not take part) and
  \<open>lastindex\<close>. Named groups are numbered in the order they are written.
\<close>

record rmatch =
  m_end :: nat
  m_groups :: "string option list"
  m_lastindex :: "nat option"

definition group :: "rmatch \<Rightarrow> nat \<Rightarrow> string option" where
  "group m k = (if k < length (m_groups m) then m_groups m ! k else None)"

text \<open>\<open>a, b, c = match.groups()\<close> for a pattern with three groups that all matched.\<close>

definition groups3 :: "rmatch \<Rightarrow> (string \<times> string \<times> string) option" where
  "groups3 m =
     (case m_groups m of
        [g0, Some a, Some b, Some c] \<Rightarrow> Some (a, b, c)
      | _ \<Rightarrow> None)"

datatype dp_settings = PREFER_FIRST_DAY | PREFER_FIRST_DAY_NO_LOCALE_ORDER

text \<open>What \<open>mrz.to_dict()\<close> of the MRZ reader holds of the keys the source reads.\<close>

record mrz_dict =
  md_valid_score :: "int option"
  md_number :: "string option"
  md_country :: "string option"
  md_expiration_date :: "string option"

text \<open>
  Everything the code asks of the outside: the clock (\<open>date.today()\<close>, taken as constant
  during a call), \<open>dateparser.parse(raw, settings)\<close> with the \<open>.date()\<close> of its answer
  (\<open>Inl\<close> when it raises), the regular-expression engine (\<open>finditer\<close>, \<open>match\<close> at the
  start of the string, \<open>sub\<close>), \<open>unicodedata.normalize("NFKD", s)\<close> followed by
  \<open>.encode("ascii", "ignore").decode()\<close>, \<open>pycountry.countries.get(alpha_3=code) is not None\<close>,
  \<open>os.path.exists\<close> and \<open>passporteye.read_mrz\<close>.
\<close>

record libs =
  today :: date
  dateparser_parse :: "dp_settings \<Rightarrow> string \<Rightarrow> error + date option"
  re_finditer :: "regex \<Rightarrow> string \<Rightarrow> rmatch list"
  re_match :: "regex \<Rightarrow> string \<Rightarrow> rmatch option"
  re_sub :: "regex \<Rightarrow> string \<Rightarrow> string \<Rightarrow> string"
  nfkd_ascii :: "string \<Rightarrow> string"
  pycountry_has_alpha_3 :: "string \<Rightarrow> error + bool"
  path_exists :: "string \<Rightarrow> bool"
  read_mrz :: "string \<Rightarrow> error + mrz_dict option"

text \<open>\<open>pattern.search(s)\<close> is the first match \<open>finditer\<close> yields.\<close>

definition re_search :: "libs \<Rightarrow> regex \<Rightarrow> string \<Rightarrow> rmatch option" where
  "re_search L pat s = (case re_finditer L pat s of [] \<Rightarrow> None | m # _ \<Rightarrow> Some m)"

section \<open>Parsing and validating one date string\<close>

text \<open>
  \<open>date(int(ys), int(ms), int(ds))\<close>; \<open>None\<close> is the ValueError of \<open>int\<close> or of \<open>date\<close>.
\<close>

definition date_of_strings :: "string \<Rightarrow> string \<Rightarrow> string \<Rightarrow> date option" where
  "date_of_strings ys ms ds =
     (case (py_int ys, py_int ms, py_int ds) of
        (Some y, Some m, Some d) \<Rightarrow> mk_date y m d
      | _ \<Rightarrow> None)"

definition month_map :: "(string \<times> int) list" where
  "month_map =
     [(''JAN'', 1), (''FEB'', 2), (''MAR'', 3), (''APR'', 4), (''MAY'', 5), (''JUN'', 6),
      (''JUL'', 7), (''AUG'', 8), (''SEP'', 9), (''OCT'', 10), (''NOV'', 11), (''DEC'', 12)]"

text \<open>
  The body of the \<open>try\<close> for the \<open>i\<close>-th pattern of \<open>regex_patterns\<close>, once it matched:
  the date it sets, and the errors and warnings it appends. With no date the loop goes
  on to the next pattern (by \<open>continue\<close>, or after one of the two \<open>except\<close> clauses).
\<close>

definition pattern_failed_warning :: "string \<Rightarrow> nat \<Rightarrow> string" where
  "pattern_failed_warning raw i =
     ''Regex matched '' @ quoted raw @ '' (pattern '' @ str_nat (i + 1) @
     '') but failed to create date object: '' @ exc_text"

definition pattern_error :: "string \<Rightarrow> nat \<Rightarrow> string" where
  "pattern_error raw i =
     ''Unexpected error parsing regex match '' @ quoted raw @ '' (pattern '' @
     str_nat (i + 1) @ ''): '' @ exc_text"

definition try_pattern ::
  "libs \<Rightarrow> nat \<Rightarrow> string \<Rightarrow> rmatch \<Rightarrow> date option \<times> string list \<times> string list" where
  "try_pattern L i raw m =
     (case groups3 m of
        None \<Rightarrow> (None, [pattern_error raw i], [])
      | Some (g1, g2, g3) \<Rightarrow>
          if i = 0 \<or> i = 1 then
            (case date_of_strings g3 g2 g1 of
               Some d \<Rightarrow> (Some d, [], [])
             | None \<Rightarrow>
                 (case date_of_strings g3 g1 g2 of
                    Some d \<Rightarrow> (Some d, [], [])
                  | None \<Rightarrow> (None, [], [])))
          else if i = 2 then
            (case date_of_strings g1 g2 g3 of
               Some d \<Rightarrow> (Some d, [], [])
             | None \<Rightarrow> (None, [], [pattern_failed_warning raw i]))
          else if i = 3 then
            (let current_year_yy = year (today L) mod 100;
                 century = year (today L) div 100
             in case py_int g1 of
                  None \<Rightarrow> (None, [], [pattern_failed_warning raw i])
                | Some year_int \<Rightarrow>
                    (let pivoted = \<not> (year_int \<ge> current_year_yy - 20);
                         full_year = (if pivoted then year_int + (century + 1) * 100
                                      else year_int + century * 100);
                         ws = (if pivoted
                               then [''Applied pivot year rule to YYMMDD date '' @ quoted raw]
                               else [])
                     in case (py_int g2, py_int g3) of
                          (Some mo, Some dd) \<Rightarrow>
                            (case mk_date full_year mo dd of
                               Some d \<Rightarrow> (Some d, [], ws)
                             | None \<Rightarrow> (None, [], ws @ [pattern_failed_warning raw i]))
                        | _ \<Rightarrow> (None, [], ws @ [pattern_failed_warning raw i])))
          else if i = 4 then
            (case map_of month_map (upper g2) of
               None \<Rightarrow> (None, [], [])
             | Some month_int \<Rightarrow>
                 (case (py_int g3, py_int g1) of
                    (Some y, Some dd) \<Rightarrow>
                      (case mk_date y month_int dd of
                         Some d \<Rightarrow> (Some d, [], [])
                       | None \<Rightarrow> (None, [], [pattern_failed_warning raw i]))
                  | _ \<Rightarrow> (None, [], [pattern_failed_warning raw i])))
          else (None, [], []))"

definition regex_patterns :: "(nat \<times> regex) list" where
  "regex_patterns =
     [(0, DATE_DMY), (1, DATE_MDY), (2, DATE_YMD), (3, DATE_YYMMDD), (4, DATE_DD_MON_YYYY)]"

fun regex_fallback ::
  "libs \<Rightarrow> string \<Rightarrow> (nat \<times> regex) list \<Rightarrow> string list \<Rightarrow> string list
     \<Rightarrow> date option \<times> string list \<times> string list" where
  "regex_fallback L raw [] errors warns = (None, errors, warns)"
| "regex_fallback L raw ((i, pat) # ps) errors warns =
     (case re_match L pat raw of
        None \<Rightarrow> regex_fallback L raw ps errors warns
      | Some m \<Rightarrow>
          (case try_pattern L i raw m of
             (Some d, es, ws) \<Rightarrow> (Some d, errors @ es, warns @ ws)
           | (None, es, ws) \<Rightarrow> regex_fallback L raw ps (errors @ es) (warns @ ws)))"

text \<open>
  The final validation of a parsed date: rejected when \<open>parsed < today - 1 day\<close>,
  otherwise returned, with a warning when \<open>parsed > today + 7300 days\<close>.
\<close>

definition validate_parsed ::
  "libs \<Rightarrow> date \<Rightarrow> string list \<Rightarrow> string list \<Rightarrow> date option \<times> string list \<times> string list" where
  "validate_parsed L parsed errors warns =
     (case less_shifted parsed (today L) (- 1) of
        None \<Rightarrow>
          (None, errors @ [''Error validating parsed date '' @ str_date parsed @ '': '' @ exc_text],
           warns)
      | Some True \<Rightarrow>
          (None, errors @ [''Date '' @ str_date parsed @ '' is in the past''], warns)
      | Some False \<Rightarrow>
          (case greater_shifted parsed (today L) (365 * 20) of
             None \<Rightarrow>
               (None,
                errors @ [''Error validating parsed date '' @ str_date parsed @ '': '' @ exc_text],
                warns)
           | Some far \<Rightarrow>
               (Some parsed, errors,
                warns @ (if far then [''Suspiciously far future date: '' @ str_date parsed]
                         else []))))"

definition parse_date_with_pivot_and_validation ::
  "libs \<Rightarrow> string \<Rightarrow> date option \<times> string list \<times> string list" where
  "parse_date_with_pivot_and_validation L raw_date_str =
     (if raw_date_str = [] then (None, [''Invalid date string input: ''], [])
      else
        (let (parsed1, warns1) =
               (case dateparser_parse L PREFER_FIRST_DAY_NO_LOCALE_ORDER raw_date_str of
                  Inl e \<Rightarrow>
                    (None, [''dateparser failed for '' @ quoted raw_date_str @ '': '' @ exc_text])
                | Inr r \<Rightarrow> (r, []));
             (parsed2, errors2, warns2) =
               (case parsed1 of
                  Some d \<Rightarrow> (Some d, [], warns1)
                | None \<Rightarrow> regex_fallback L raw_date_str regex_patterns [] warns1)
         in case parsed2 of
              Some d \<Rightarrow> validate_parsed L d errors2 warns2
            | None \<Rightarrow>
                (None,
                 errors2 @ [''Could not parse date from string '' @ quoted raw_date_str @
                            '' using any method.''],
                 warns2)))"

text \<open>\<open>_build_date\<close>, local to \<open>_find_expiration_date\<close>.\<close>

definition build_date :: "int \<Rightarrow> int \<Rightarrow> int \<Rightarrow> date \<Rightarrow> date option" where
  "build_date d m y tod =
     (let y' = (if y < 100 then y + (if y \<le> year tod mod 100 + 10 then 2000 else 1900) else y)
      in case mk_date y' m d of
           None \<Rightarrow> None
         | Some dt \<Rightarrow> if date_less tod dt then Some dt else None)"

text \<open>
  The expiration date in \<open>MRZStrategy.extract\<close>: the \<open>try\<close> block that reads the
  reader's \<open>YYMMDD\<close> string. Any exception leaves the date \<open>None\<close>.
\<close>

definition mrz_expiration_date :: "string \<Rightarrow> date option" where
  "mrz_expiration_date exp_str =
     (case (py_int (take 2 exp_str), py_int (take 2 (drop 2 exp_str)),
            py_int (take 2 (drop 4 exp_str))) of
        (Some y, Some m, Some d) \<Rightarrow> mk_date (y + (if y < 50 then 2000 else 1900)) m d
      | _ \<Rightarrow> None)"

section \<open>Validation helpers of a strategy\<close>

text \<open>\<open>MRZData\<close>: the parsed machine-readable zone handed to a strategy.\<close>

record MRZData =
  document_type :: "string option"
  country_code :: "string option"
  number_mrz :: "string option"
  expiration_date_mrz :: "date option"
  expiration_date_str :: "string option"

text \<open>The truth value of an optional string: \<open>None\<close> and \<open>""\<close> are false.\<close>

definition truthy :: "string option \<Rightarrow> bool" where
  "truthy s = (s \<noteq> None \<and> s \<noteq> Some [])"

text \<open>\<open>self.add_error\<close> and \<open>self.add_warning\<close> of a strategy instance.\<close>

definition self_add_error :: "string \<Rightarrow> bookkeeping \<Rightarrow> bookkeeping" where
  "self_add_error msg bk =
     bk\<lparr>s_validation_errors := s_validation_errors bk @ [msg],
        s_confidence := max 0 (s_confidence bk - 2 / 10)\<rparr>"

definition self_add_warning :: "string \<Rightarrow> bookkeeping \<Rightarrow> bookkeeping" where
  "self_add_warning msg bk =
     bk\<lparr>s_warnings := s_warnings bk @ [msg],
        s_confidence := max 0 (s_confidence bk - 1 / 10)\<rparr>"

text \<open>
  \<open>for err in errors: self.add_error(err)\<close> followed by
  \<open>for warn in warnings: self.add_warning(warn)\<close>.
\<close>

definition record_all :: "string list \<Rightarrow> string list \<Rightarrow> bookkeeping \<Rightarrow> bookkeeping" where
  "record_all errors warns bk = fold self_add_warning warns (fold self_add_error errors bk)"

text \<open>\<open>DocumentExtractionStrategy._validate_country_code\<close>.\<close>

definition validate_country_code :: "string option \<Rightarrow> bookkeeping \<Rightarrow> bool \<times> bookkeeping" where
  "validate_country_code code bk =
     (case code of
        None \<Rightarrow> (False, self_add_error ''Invalid country code type'' bk)
      | Some c \<Rightarrow>
          if c = [] then (False, self_add_error ''Invalid country code type'' bk)
          else if length c \<noteq> 3
          then (False, self_add_error (''Invalid country code length: '' @ str_nat (length c)) bk)
          else if \<not> isalpha c
          then (False, self_add_error (''Country code contains non-letters: '' @ c) bk)
          else if \<not> isupper c
          then (False, self_add_error (''Country code not uppercase: '' @ c) bk)
          else (True, bk))"

text \<open>\<open>_looks_valid_number(number, doc_type)\<close>: validity, errors, warnings.\<close>

definition looks_valid_number ::
  "libs \<Rightarrow> string option \<Rightarrow> string \<Rightarrow> bool \<times> string list \<times> string list" where
  "looks_valid_number L num doc_type =
     (case num of
        None \<Rightarrow> (False, [''Invalid number: None''], [])
      | Some n \<Rightarrow>
          if n = [] then (False, [''Invalid number: ''], [])
          else if strip n = [] then (False, [''Number is empty or whitespace''], [])
          else if 2 < length n \<and> length (remdups n) = 1 \<and> isdigit n
          then (False, [''Number contains all same digits: '' @ n], [])
          else if doc_type = ''passport'' then
            (if re_match L NUM_PASSPORT n = None
             then (False, [''Invalid passport number format: '' @ n], [])
             else (True, [], []))
          else if doc_type = ''id_card'' then
            (if re_match L NUM_ID_CARD n = None
             then (False, [''Invalid ID card number format: '' @ n], [])
             else (True, [], []))
          else if doc_type = ''visa'' then
            (if re_match L NUM_VISA n = None
             then (False, [''Invalid visa number format: '' @ n], [])
             else (True, [], []))
          else if doc_type = ''generic'' then
            (True, [],
             if re_match L NUM_ID_CARD n = None then [''Number format may be invalid: '' @ n]
             else [])
          else (True, [], []))"

section \<open>The United States passport strategy\<close>

text \<open>
  Step 1 of \<open>USPassportStrategy.extract\<close>, for an \<open>mrz_data\<close> that is present: the number
  and the expiration date taken from the machine-readable zone.
\<close>

definition us_mrz_stage ::
  "libs \<Rightarrow> MRZData \<Rightarrow> bookkeeping \<Rightarrow> (string option \<times> date option) \<times> bookkeeping" where
  "us_mrz_stage L md bk =
     (let (num, bk1) =
            (if truthy (number_mrz md) then
               (case looks_valid_number L (number_mrz md) ''passport'' of
                  (ok, errors, warns) \<Rightarrow>
                    (if ok then number_mrz md else None, record_all errors warns bk))
             else (None, bk));
          (expiry, bk2) =
            (case expiration_date_mrz md of
               Some d \<Rightarrow> (Some d, bk1)
             | None \<Rightarrow>
                 (case expiration_date_str md of
                    None \<Rightarrow> (None, bk1)
                  | Some s \<Rightarrow>
                      if s = [] then (None, bk1)
                      else (case parse_date_with_pivot_and_validation L s of
                              (parsed, errors, warns) \<Rightarrow>
                                (parsed, record_all errors warns bk1))))
      in ((num, expiry), bk2))"

text \<open>
  \<open>''.join(exp_match.groups())\<close>: the groups after the whole match, concatenated; a
  group that did not take part is \<open>None\<close>, and joining it raises TypeError (\<open>None\<close> here).
\<close>

fun join_groups :: "string option list \<Rightarrow> string option" where
  "join_groups [] = Some []"
| "join_groups (None # gs) = None"
| "join_groups (Some g # gs) = map_option (\<lambda>r. g @ r) (join_groups gs)"

text \<open>Step 2: the fallback on the text, entered when a field is still missing.\<close>

definition us_text_stage ::
  "libs \<Rightarrow> string \<Rightarrow> string option \<Rightarrow> date option \<Rightarrow> bookkeeping
     \<Rightarrow> (error + string option \<times> date option) \<times> bookkeeping" where
  "us_text_stage L text num expiry bk =
     (if truthy num \<and> expiry \<noteq> None then (Inr (num, expiry), bk)
      else
        (case re_search L US_MRZ_LINE text of
           None \<Rightarrow> (Inr (num, expiry), bk)
         | Some mrz_match \<Rightarrow>
             (let next_line = (case splitlines (drop (m_end mrz_match) text) of
                                 [] \<Rightarrow> []
                               | l # _ \<Rightarrow> strip l);
                  (num', bk1) =
                    (case re_search L US_NUM next_line of
                       None \<Rightarrow> (num, bk)
                     | Some num_match \<Rightarrow>
                         (case looks_valid_number L (group num_match 0) ''passport'' of
                            (ok, errors, warns) \<Rightarrow>
                              (if ok then group num_match 0 else num,
                               record_all errors warns bk)))
              in if expiry \<noteq> None then (Inr (num', expiry), bk1)
                 else
                   (case re_search L US_EXP next_line of
                      None \<Rightarrow> (Inr (num', None), bk1)
                    | Some exp_match \<Rightarrow>
                        (case join_groups (tl (m_groups exp_match)) of
                           None \<Rightarrow>
                             (Inl (TypeError ''sequence item: expected str instance''), bk1)
                         | Some raw_date_str \<Rightarrow>
                             (case parse_date_with_pivot_and_validation L raw_date_str of
                                (parsed, errors, warns) \<Rightarrow>
                                  (Inr (num', parsed), record_all errors warns bk1)))))))"

text \<open>
  The names a strategy instance answers to: the attributes \<open>__init__\<close> sets and the
  methods of \<open>DocumentExtractionStrategy\<close> and its subclasses. The fields of the
  \<open>ExtractionResult\<close> dataclass are the keywords its constructor accepts, all required.
\<close>

definition strategy_attributes :: "string list" where
  "strategy_attributes =
     [''_validation_errors'', ''_warnings'', ''_confidence'', ''_fallback_strategy'',
      ''add_fallback_strategy'', ''chain_strategies'', ''_merge_results'', ''_validate_input'',
      ''_validate_country_code'', ''_validate_document_number'', ''_validate_date'',
      ''add_error'', ''add_warning'', ''_create_result'', ''extract'', ''_score_candidate'',
      ''_parse_date_with_pivot_and_validation'']"

definition ExtractionResult_fields :: "string list" where
  "ExtractionResult_fields =
     [''number'', ''issued_country'', ''expiration_date'', ''confidence'', ''validation_errors'',
      ''warnings'']"

text \<open>
  The \<open>return\<close> statement of \<open>USPassportStrategy.extract\<close>: the arguments \<open>self.errors\<close>
  and \<open>self.warnings\<close> are evaluated, then the constructor is called with the keywords
  \<open>number\<close>, \<open>expiration_date\<close>, \<open>issued_country\<close>, \<open>errors\<close>, \<open>warnings\<close>.
\<close>

definition us_return ::
  "string option \<Rightarrow> date option \<Rightarrow> string option \<Rightarrow> error + ExtractionResult" where
  "us_return num expiry country =
     (case filter (\<lambda>a. a \<notin> set strategy_attributes) [''errors'', ''warnings''] of
        a # _ \<Rightarrow> Inl (AttributeError a)
      | [] \<Rightarrow>
          (case filter (\<lambda>k. k \<notin> set ExtractionResult_fields)
                  [''number'', ''expiration_date'', ''issued_country'', ''errors'', ''warnings''] of
             k # _ \<Rightarrow> Inl (TypeError (''unexpected keyword argument '' @ k))
           | [] \<Rightarrow> Inl (TypeError ''missing required arguments'')))"

definition USPassportStrategy_extract ::
  "libs \<Rightarrow> string \<Rightarrow> MRZData option \<Rightarrow> string option \<Rightarrow> bookkeeping
     \<Rightarrow> (error + ExtractionResult) \<times> bookkeeping" where
  "USPassportStrategy_extract L text mrz_data file_path bk =
     (if text = [] then (Inl (ValueError ''text must be a non-empty string''), bk)
      else
        (case (case mrz_data of
                 None \<Rightarrow> ((None, None), bk)
               | Some md \<Rightarrow> us_mrz_stage L md bk) of
           ((num, expiry), bk1) \<Rightarrow>
             (case us_text_stage L text num expiry bk1 of
                (Inl e, bk2) \<Rightarrow> (Inl e, bk2)
              | (Inr (num', expiry'), bk2) \<Rightarrow>
                  (case validate_country_code (Some ''USA'') bk2 of
                     (ok, bk3) \<Rightarrow> (us_return num' expiry' (Some ''USA''), bk3)))))"

section \<open>Extraction with country overwrite\<close>

text \<open>
  \<open>extract\<close> of an instance of a class, on its three arguments and its bookkeeping. The
  United States strategy is the one above; the other classes are a parameter.
\<close>

type_synonym strategy_extract =
  "string \<Rightarrow> MRZData option \<Rightarrow> string option \<Rightarrow> bookkeeping
     \<Rightarrow> (error + ExtractionResult) \<times> bookkeeping"

definition extract_of ::
  "libs \<Rightarrow> (strategy_class \<Rightarrow> strategy_extract) \<Rightarrow> strategy_class \<Rightarrow> strategy_extract" where
  "extract_of L X c = (if c = USPassportStrategy then USPassportStrategy_extract L else X c)"

definition country_strategies :: "(string \<times> strategy_class) list" where
  "country_strategies =
     [(''EGY'', EGYPassportStrategy), (''ESP'', ESPassportStrategy), (''USA'', USPassportStrategy)]"

definition extract_with_country_overwrite ::
  "libs \<Rightarrow> (strategy_class \<Rightarrow> strategy_extract) \<Rightarrow> string \<Rightarrow> MRZData option
     \<Rightarrow> error + ExtractionResult" where
  "extract_with_country_overwrite L X text mrz_data =
     (case fst (extract_of L X MRZStrategy text mrz_data None init_book) of
        Inl e \<Rightarrow> Inl e
      | Inr mrz_result \<Rightarrow>
          (case fst (extract_of L X GenericStrategy text mrz_data None init_book) of
             Inl e \<Rightarrow> Inl e
           | Inr generic_result \<Rightarrow>
               (let merged =
                      \<lparr>number = or_str (number mrz_result) (number generic_result),
                       issued_country =
                         or_str (issued_country mrz_result) (issued_country generic_result),
                       expiration_date =
                         or_date (expiration_date mrz_result) (expiration_date generic_result),
                       confidence = min (confidence mrz_result) (confidence generic_result),
                       validation_errors =
                         validation_errors mrz_result @ validation_errors generic_result,
                       warnings = warnings mrz_result @ warnings generic_result\<rparr>
                in case issued_country merged of
                     None \<Rightarrow> Inr merged
                   | Some country \<Rightarrow>
                       (case map_of country_strategies country of
                          None \<Rightarrow> Inr merged
                        | Some c \<Rightarrow>
                            (case fst (extract_of L X c text mrz_data None init_book) of
                               Inl e \<Rightarrow> Inl e
                             | Inr country_result \<Rightarrow>
                                 Inr \<lparr>number = or_str (number country_result) (number merged),
                                      issued_country =
                                        or_str (issued_country country_result)
                                          (issued_country merged),
                                      expiration_date =
                                        or_date (expiration_date country_result)
                                          (expiration_date merged),
                                      confidence =
                                        min (confidence merged) (confidence country_result),
                                      validation_errors =
                                        validation_errors merged @
                                        validation_errors country_result,
                                      warnings =
                                        warnings merged @ warnings country_result\<rparr>)))))"

section \<open>Example data\<close>

definition example_primary :: ExtractionResult where
  "example_primary =
     \<lparr>number = Some [], issued_country = Some [], expiration_date = None,
      confidence = 1, validation_errors = [], warnings = []\<rparr>"

definition example_fallback :: ExtractionResult where
  "example_fallback =
     \<lparr>number = Some ''X1234567'', issued_country = Some ''ESP'', expiration_date = None,
      confidence = 8 / 10, validation_errors = [''e''], warnings = []\<rparr>"


definition libs_2026 :: libs where
  "libs_2026 =
     \<lparr>today = \<lparr>year = 2026, month = 11, day = 4\<rparr>,
      dateparser_parse = (\<lambda>settings raw. Inr None),
      re_finditer = (\<lambda>pat s. []),
      re_match = (\<lambda>pat s. None),
      re_sub = (\<lambda>pat repl s. s),
      nfkd_ascii = (\<lambda>s. s),
      pycountry_has_alpha_3 = (\<lambda>code. Inr False),
      path_exists = (\<lambda>path. False),
      read_mrz = (\<lambda>path. Inr None)\<rparr>"


definition yymmdd_match :: rmatch where
  "yymmdd_match =
     \<lparr>m_end = 6, m_groups = [Some ''500101'', Some ''50'', Some ''01'', Some ''01''],
      m_lastindex = Some 3\<rparr>"

definition example_usa_result :: ExtractionResult where
  "example_usa_result =
     \<lparr>number = None, issued_country = Some ''USA'', expiration_date = None,
      confidence = 1, validation_errors = [], warnings = []\<rparr>"

definition example_extracts :: "strategy_class \<Rightarrow> strategy_extract" where
  "example_extracts c text mrz_data file_path bk = (Inr example_usa_result, bk)"

section \<open>Merging\<close>

text \<open>
  C1, as stated, fails: a primary result whose number is the empty string (non-null)
  does not keep it; the fallback's number is taken.
\<close>

theorem merge_results_empty_string_counterexample:
  "number example_primary \<noteq> None \<and>
   number (merge_results example_primary example_fallback) \<noteq> number example_primary \<and>
   issued_country example_primary \<noteq> None \<and>
   issued_country (merge_results example_primary example_fallback)
     \<noteq> issued_country example_primary"
  by (simp add: merge_results_def or_str_def example_primary_def example_fallback_def)

text \<open>
  C1, amended: number and issued_country are the primary's value when it is non-null
  and non-empty and otherwise the fallback's; expiration_date is the primary's when
  non-null and otherwise the fallback's; confidence is the minimum of the two; the
  validation_errors and warnings lists are the primary's followed by the fallback's.
\<close>

theorem merge_results_fields:
  "number (merge_results a b) =
     (if number a \<noteq> None \<and> number a \<noteq> Some [] then number a else number b) \<and>
   issued_country (merge_results a b) =
     (if issued_country a \<noteq> None \<and> issued_country a \<noteq> Some []
      then issued_country a else issued_country b) \<and>
   expiration_date (merge_results a b) =
     (if expiration_date a \<noteq> None then expiration_date a else expiration_date b) \<and>
   confidence (merge_results a b) = min (confidence a) (confidence b) \<and>
   validation_errors (merge_results a b) = validation_errors a @ validation_errors b \<and>
   warnings (merge_results a b) = warnings a @ warnings b"
  by (auto simp: merge_results_def or_str_def or_date_def split: option.splits)

theorem merge_results_fields_witness:
  "number (merge_results example_fallback example_primary) = Some ''X1234567'' \<and>
   issued_country (merge_results example_fallback example_primary) = Some ''ESP'' \<and>
   confidence (merge_results example_fallback example_primary) = 8 / 10 \<and>
   validation_errors (merge_results example_fallback example_primary) = [''e'']"
  using merge_results_fields [of example_fallback example_primary]
  by (simp add: example_primary_def example_fallback_def)

section \<open>Confidence bookkeeping\<close>







section \<open>Fallback chains\<close>

lemma reaches_iff:
  "reaches h p r \<longleftrightarrow> r = p \<or> (\<exists>q. fallback_strategy (objs h p) = Some q \<and> reaches h q r)"
  by (subst reaches.simps) auto

lemma fallback_after_add [simp]:
  "fallback_strategy (objs (add_fallback_strategy s b h) p) =
     (if p = s then Some b else fallback_strategy (objs h p))"
  by (simp add: add_fallback_strategy_def)

lemma fallback_after_set_book [simp]:
  "fallback_strategy (objs (set_book p bk h) q) = fallback_strategy (objs h q)"
  by (simp add: set_book_def)



subsection \<open>The chain built for passports\<close>

lemma chain_loop_None: "chain_loop ex h None vis rs = Some (vis, Inr rs, h)"
  by (subst chain_loop.simps) simp

lemma chain_loop_Some:
  "chain_loop ex h (Some p) vis rs =
     (case ex (cls (objs h p)) (book (objs h p)) of
        (Inl e, bk) \<Rightarrow> Some (vis @ [p], Inl e, set_book p bk h)
      | (Inr r, bk) \<Rightarrow>
          chain_loop ex (set_book p bk h) (fallback_strategy (objs h p)) (vis @ [p]) (rs @ [r]))"
  by (subst chain_loop.simps) (simp split: prod.splits sum.splits)

lemma lower_passport: "lower ''passport'' = ''passport''"
  by (simp add: lower_def lower_char_def)

lemma new_strategy_simps:
  "fst (new_strategy c h) = next_addr h"
  "next_addr (snd (new_strategy c h)) = Suc (next_addr h)"
  "objs (snd (new_strategy c h)) p = (if p = next_addr h then init_strategy c else objs h p)"
  by (simp_all add: new_strategy_def)

lemma add_fallback_strategy_simps:
  "next_addr (add_fallback_strategy s b h) = next_addr h"
  "cls (objs (add_fallback_strategy s b h) p) = cls (objs h p)"
  "book (objs (add_fallback_strategy s b h) p) = book (objs h p)"
  by (simp_all add: add_fallback_strategy_def)

lemma passport_chain_objs:
  "fst passport_chain = 0"
  "map (\<lambda>p. cls (objs (snd passport_chain) p)) [0, 1, 2, 3, 4, 5] =
     [MRZStrategy, ESPassportStrategy, EGYPassportStrategy, EUGenericStrategy,
      USPassportStrategy, GenericStrategy]"
  "fallback_strategy (objs (snd passport_chain) 0) = Some 5"
  "fallback_strategy (objs (snd passport_chain) 5) = None"
  by (simp_all add: passport_chain_def get_strategy_def lower_passport split_def
      new_strategy_simps add_fallback_strategy_simps init_strategy_def empty_heap_def Let_def)

lemma passport_chain_reaches: "reaches (snd passport_chain) 0 x \<longleftrightarrow> x = 0 \<or> x = 5"
proof -
  have "reaches (snd passport_chain) 5 x \<longleftrightarrow> x = 5"
    by (subst reaches_iff) (simp add: passport_chain_objs)
  then show ?thesis
    by (subst reaches_iff) (simp add: passport_chain_objs)
qed

lemma passport_chain_visited:
  "\<exists>vis out h'. chain_strategies ex (snd passport_chain) 0 = Some (vis, out, h') \<and>
     (vis = [0] \<or> vis = [0, 5])"
proof -
  obtain o1 b1 where e1:
    "ex (cls (objs (snd passport_chain) 0)) (book (objs (snd passport_chain) 0)) = (o1, b1)"
    by (cases "ex (cls (objs (snd passport_chain) 0)) (book (objs (snd passport_chain) 0))")
  define h1 where "h1 = set_book 0 b1 (snd passport_chain)"
  obtain o2 b2 where e2: "ex (cls (objs h1 5)) (book (objs h1 5)) = (o2, b2)"
    by (cases "ex (cls (objs h1 5)) (book (objs h1 5))")
  have f5: "fallback_strategy (objs h1 5) = None"
    by (simp add: h1_def passport_chain_objs)
  show ?thesis
  proof (cases o1)
    case (Inl e)
    then show ?thesis
      by (simp add: chain_strategies_def chain_loop_Some e1)
  next
    case (Inr r)
    then show ?thesis
      by (cases o2)
        (simp_all add: chain_strategies_def chain_loop_Some chain_loop_None e1 e2 f5
          passport_chain_objs h1_def [symmetric])
  qed
qed

text \<open>
  C3: what \<open>get_strategy("passport")\<close> builds. Six instances are created, at the
  addresses 0 to 5 in the order MRZ, Spanish, Egyptian, EU-generic, US, Generic, but
  each \<open>add_fallback_strategy\<close> call on the MRZ instance overwrites the previous one:
  its fallback is the Generic instance, which has none. Only the addresses 0 and 5 are
  reachable, and whatever the \<open>extract\<close> methods do, \<open>chain_strategies\<close> returns having
  called \<open>extract\<close> on the MRZ instance alone (when it raises) or on the MRZ and then the
  Generic instance; the four country strategies are never run.
\<close>

theorem get_strategy_passport_chain:
  "fst passport_chain = 0 \<and>
   map (\<lambda>p. cls (objs (snd passport_chain) p)) [0, 1, 2, 3, 4, 5] =
     [MRZStrategy, ESPassportStrategy, EGYPassportStrategy, EUGenericStrategy,
      USPassportStrategy, GenericStrategy] \<and>
   fallback_strategy (objs (snd passport_chain) 0) = Some 5 \<and>
   fallback_strategy (objs (snd passport_chain) 5) = None \<and>
   (\<forall>x. reaches (snd passport_chain) 0 x \<longleftrightarrow> x = 0 \<or> x = 5) \<and>
   (\<forall>ex. \<exists>vis out h'.
      chain_strategies ex (snd passport_chain) (fst passport_chain) = Some (vis, out, h') \<and>
      (vis = [0] \<or> vis = [0, 5]))"
  using passport_chain_objs passport_chain_reaches passport_chain_visited
  by (simp del: list.map)


section \<open>Dates compare as their ordinals\<close>

lemma div_step:
  fixes x k :: int
  assumes k: "0 < k"
  shows "(x + 1) div k = x div k + (if (x + 1) mod k = 0 then 1 else 0)"
proof -
  define q where "q = x div k"
  define r where "r = x mod k"
  have x: "x = k * q + r" and r: "0 \<le> r" "r < k"
    using k by (simp_all add: q_def r_def)
  show ?thesis
  proof (cases "r + 1 < k")
    case True
    have e: "x + 1 = k * q + (r + 1)" using x by simp
    have "(x + 1) div k = q"
      by (rule int_div_pos_eq [OF e]) (use r True in simp_all)
    moreover have "(x + 1) mod k = r + 1"
      by (rule int_mod_pos_eq [OF e]) (use r True in simp_all)
    ultimately show ?thesis using r by (simp add: q_def)
  next
    case False
    then have rk: "r + 1 = k" using r by simp
    have e: "x + 1 = k * (q + 1) + 0" using x rk by (simp add: algebra_simps)
    have "(x + 1) div k = q + 1"
      by (rule int_div_pos_eq [OF e]) (use k in simp_all)
    moreover have "(x + 1) mod k = 0"
      by (rule int_mod_pos_eq [OF e]) (use k in simp_all)
    ultimately show ?thesis by (simp add: q_def)
  qed
qed

lemma mod_400_100: "y mod 400 = 0 \<Longrightarrow> y mod 100 = 0" for y :: int
proof -
  assume "y mod 400 = 0"
  then have "400 dvd y" by (simp add: dvd_eq_mod_eq_0)
  moreover have "(100::int) dvd 400" by simp
  ultimately have "100 dvd y" by (rule dvd_trans [rotated])
  then show ?thesis by (simp add: dvd_eq_mod_eq_0)
qed

lemma mod_100_4: "y mod 100 = 0 \<Longrightarrow> y mod 4 = 0" for y :: int
proof -
  assume "y mod 100 = 0"
  then have "100 dvd y" by (simp add: dvd_eq_mod_eq_0)
  moreover have "(4::int) dvd 100" by simp
  ultimately have "4 dvd y" by (rule dvd_trans [rotated])
  then show ?thesis by (simp add: dvd_eq_mod_eq_0)
qed


lemma days_before_year_Suc:
  "days_before_year (y + 1) = days_before_year y + (if is_leap y then 366 else 365)"
proof -
  define A where "A = (y - 1) div 4"
  define B where "B = (y - 1) div 100"
  define C where "C = (y - 1) div 400"
  define p4 where "p4 = (y mod 4 = 0)"
  define p100 where "p100 = (y mod 100 = 0)"
  define p400 where "p400 = (y mod 400 = 0)"
  have a: "y div 4 = A + (if p4 then 1 else 0)"
    using div_step [of 4 "y - 1"] by (simp add: A_def p4_def)
  have b: "y div 100 = B + (if p100 then 1 else 0)"
    using div_step [of 100 "y - 1"] by (simp add: B_def p100_def)
  have c: "y div 400 = C + (if p400 then 1 else 0)"
    using div_step [of 400 "y - 1"] by (simp add: C_def p400_def)
  have i1: "p400 \<Longrightarrow> p100" using mod_400_100 [of y] by (simp add: p400_def p100_def)
  have i2: "p100 \<Longrightarrow> p4" using mod_100_4 [of y] by (simp add: p4_def p100_def)
  have l: "is_leap y = (p4 \<and> (\<not> p100 \<or> p400))"
    by (simp add: is_leap_def p4_def p100_def p400_def)
  have lhs: "days_before_year (y + 1) = y * 365 + y div 4 - y div 100 + y div 400"
    by (simp add: days_before_year_def)
  have rhs: "days_before_year y = (y - 1) * 365 + A - B + C"
    by (simp add: days_before_year_def A_def B_def C_def)
  show ?thesis
    unfolding lhs rhs l a b c using i1 i2
    by (cases p4; cases p100; cases p400) (simp_all add: algebra_simps)
qed

lemma days_before_year_mono: "y \<le> y' \<Longrightarrow> days_before_year y \<le> days_before_year y'"
proof (induction y' rule: int_ge_induct)
  case base
  then show ?case by simp
next
  case (step i)
  have "days_before_year i \<le> days_before_year (i + 1)"
    unfolding days_before_year_Suc by simp
  with step show ?case by linarith
qed

lemma month_cases:
  "1 \<le> m \<Longrightarrow> m \<le> 12 \<Longrightarrow>
     m = 1 \<or> m = 2 \<or> m = 3 \<or> m = 4 \<or> m = 5 \<or> m = 6 \<or> m = 7 \<or> m = 8 \<or> m = 9 \<or>
     m = 10 \<or> m = 11 \<or> m = (12::int)"
  by arith

lemma days_before_month_next:
  assumes "1 \<le> m" "m \<le> 11"
  shows "days_before_month y (m + 1) = days_before_month y m + days_in_month y m"
proof -
  have "m = 1 \<or> m = 2 \<or> m = 3 \<or> m = 4 \<or> m = 5 \<or> m = 6 \<or> m = 7 \<or> m = 8 \<or> m = 9 \<or>
     m = 10 \<or> m = 11"
    using assms by arith
  then show ?thesis
    by (elim disjE) (simp_all add: days_before_month_def days_in_month_def)
qed

lemma days_in_month_pos: "0 < days_in_month y m"
  by (simp add: days_in_month_def)

lemma days_before_month_mono_aux:
  assumes "m \<le> m'" "1 \<le> m"
  shows "m' \<le> 12 \<longrightarrow> days_before_month y m \<le> days_before_month y m'"
  using assms(1)
proof (induction m' rule: int_ge_induct)
  case base
  then show ?case by simp
next
  case (step i)
  show ?case
  proof
    assume i: "i + 1 \<le> 12"
    have "days_before_month y (i + 1) = days_before_month y i + days_in_month y i"
      using step i assms(2) by (intro days_before_month_next) simp_all
    then show "days_before_month y m \<le> days_before_month y (i + 1)"
      using step i days_in_month_pos [of y i] by simp
  qed
qed

lemma days_before_month_mono:
  "1 \<le> m \<Longrightarrow> m \<le> m' \<Longrightarrow> m' \<le> 12 \<Longrightarrow> days_before_month y m \<le> days_before_month y m'"
  using days_before_month_mono_aux by blast

lemma days_before_month_12:
  "days_before_month y 12 + days_in_month y 12 = (if is_leap y then 366 else 365)"
  by (simp add: days_before_month_def days_in_month_def)

lemma toordinal_bounds:
  assumes "date_valid a"
  shows "days_before_year (year a) < toordinal a"
    and "toordinal a \<le> days_before_year (year a + 1)"
proof -
  have m: "1 \<le> month a" "month a \<le> 12"
    and d: "1 \<le> day a" "day a \<le> days_in_month (year a) (month a)"
    using assms by (simp_all add: date_valid_def)
  have "days_before_month (year a) 1 \<le> days_before_month (year a) (month a)"
    using m by (intro days_before_month_mono) simp_all
  then have "0 \<le> days_before_month (year a) (month a)"
    by (simp add: days_before_month_def)
  then show "days_before_year (year a) < toordinal a"
    using d by (simp add: toordinal_def)
  have "days_before_month (year a) (month a) + days_in_month (year a) (month a)
          \<le> days_before_month (year a) 12 + days_in_month (year a) 12"
  proof (cases "month a = 12")
    case True
    then show ?thesis by simp
  next
    case False
    then have le: "month a \<le> 11" using m by simp
    have "days_before_month (year a) (month a) + days_in_month (year a) (month a)
            = days_before_month (year a) (month a + 1)"
      using days_before_month_next [of "month a" "year a"] m le by simp
    also have "\<dots> \<le> days_before_month (year a) 12"
      using m le by (intro days_before_month_mono) simp_all
    finally show ?thesis
      using days_in_month_pos [of "year a" 12] by simp
  qed
  then show "toordinal a \<le> days_before_year (year a + 1)"
    using d days_before_month_12 [of "year a"]
    by (simp add: toordinal_def days_before_year_Suc split: if_splits)
qed

lemma toordinal_less:
  assumes "date_valid a" "date_valid b" "date_less a b"
  shows "toordinal a < toordinal b"
proof -
  consider (y) "year a < year b"
    | (m) "year a = year b" "month a < month b"
    | (d) "year a = year b" "month a = month b" "day a < day b"
    using assms(3) by (auto simp: date_less_def)
  then show ?thesis
  proof cases
    case y
    have "toordinal a \<le> days_before_year (year a + 1)"
      using toordinal_bounds(2) [OF assms(1)] .
    also have "\<dots> \<le> days_before_year (year b)"
      using y by (intro days_before_year_mono) simp
    also have "\<dots> < toordinal b"
      using toordinal_bounds(1) [OF assms(2)] .
    finally show ?thesis .
  next
    case m
    have ma: "1 \<le> month a" "day a \<le> days_in_month (year a) (month a)"
      and mb: "month b \<le> 12" "1 \<le> day b"
      using assms by (simp_all add: date_valid_def)
    have le: "month a \<le> 11" using m mb by simp
    have "days_before_month (year a) (month a) + day a
            \<le> days_before_month (year a) (month a + 1)"
      using days_before_month_next [of "month a" "year a"] ma le by simp
    also have "\<dots> \<le> days_before_month (year a) (month b)"
      using ma m mb by (intro days_before_month_mono) simp_all
    finally show ?thesis
      using m mb by (simp add: toordinal_def)
  next
    case d
    then show ?thesis by (simp add: toordinal_def)
  qed
qed

lemma date_less_iff_toordinal:
  assumes "date_valid a" "date_valid b"
  shows "date_less a b \<longleftrightarrow> toordinal a < toordinal b"
proof
  assume "date_less a b"
  then show "toordinal a < toordinal b" using toordinal_less assms by blast
next
  assume lt: "toordinal a < toordinal b"
  show "date_less a b"
  proof (rule ccontr)
    assume n: "\<not> date_less a b"
    have "a = b \<or> date_less b a"
      using n by (cases a, cases b) (auto simp: date_less_def)
    then show False
      using lt toordinal_less [OF assms(2) assms(1)] by auto
  qed
qed

section \<open>Two-digit years\<close>

lemma is_digit_facts:
  assumes "is_digit c"
  shows "\<exists>d. digit_of c = Some d \<and> 0 \<le> d \<and> d \<le> 9"
    and "\<not> is_space c" and "c \<noteq> CHR ''-''" and "c \<noteq> CHR ''+''" and "c \<noteq> CHR ''_''"
  using assms by (auto simp: is_digit_def digit_of_def is_space_def)

lemma py_int_two_digits:
  assumes "is_digit a" "is_digit b"
  shows "\<exists>Y. py_int [a, b] = Some Y \<and> 0 \<le> Y \<and> Y < 100"
proof -
  obtain da where da: "digit_of a = Some da" "0 \<le> da" "da \<le> 9"
    using is_digit_facts(1) [OF assms(1)] by blast
  obtain db where db: "digit_of b = Some db" "0 \<le> db" "db \<le> 9"
    using is_digit_facts(1) [OF assms(2)] by blast
  have "strip [a, b] = [a, b]"
    using is_digit_facts(2) [OF assms(1)] is_digit_facts(2) [OF assms(2)]
    by (simp add: strip_def)
  then have "py_int [a, b] = Some (10 * da + db)"
    using is_digit_facts(3-5) [OF assms(1)] is_digit_facts(5) [OF assms(2)] da db
    by (simp add: py_int_def)
  then show ?thesis using da db by simp
qed

lemma six_digits:
  assumes "length s = 6" "list_all is_digit s"
  shows "\<exists>a b c d e f. s = [a, b, c, d, e, f] \<and> is_digit a \<and> is_digit b \<and> is_digit c \<and>
           is_digit d \<and> is_digit e \<and> is_digit f"
proof -
  obtain a b c d e f where "s = [a, b, c, d, e, f]"
    using assms(1) by (auto simp: length_Suc_conv eval_nat_numeral)
  then show ?thesis using assms(2) by simp
qed

lemma mrz_expiration_date_pivot:
  assumes "length s = 6" "list_all is_digit s"
  shows "\<exists>Y M D. py_int (take 2 s) = Some Y \<and> 0 \<le> Y \<and> Y < 100 \<and>
           py_int (take 2 (drop 2 s)) = Some M \<and> py_int (take 2 (drop 4 s)) = Some D \<and>
           mrz_expiration_date s = mk_date (if Y < 50 then 2000 + Y else 1900 + Y) M D"
proof -
  obtain a b c d e f where s: "s = [a, b, c, d, e, f]"
    and dg: "is_digit a" "is_digit b" "is_digit c" "is_digit d" "is_digit e" "is_digit f"
    using six_digits [OF assms] by blast
  obtain Y where Y: "py_int [a, b] = Some Y" "0 \<le> Y" "Y < 100"
    using py_int_two_digits [OF dg(1,2)] by blast
  obtain M where M: "py_int [c, d] = Some M"
    using py_int_two_digits [OF dg(3,4)] by blast
  obtain D where D: "py_int [e, f] = Some D"
    using py_int_two_digits [OF dg(5,6)] by blast
  have "mrz_expiration_date s = mk_date (if Y < 50 then 2000 + Y else 1900 + Y) M D"
    using Y M D by (simp add: mrz_expiration_date_def s add.commute)
  then show ?thesis using Y M D by (auto simp: s)
qed

lemma build_date_year:
  assumes "0 \<le> y" "y < 100" "build_date d m y tod = Some dt"
  shows "year dt = (if y \<le> year tod mod 100 + 10 then 2000 + y else 1900 + y)"
  using assms
  by (auto simp: build_date_def mk_date_def Let_def split: if_splits option.splits)

lemma try_pattern_year:
  assumes "groups3 mt = Some (g1, g2, g3)" "py_int g1 = Some Y"
    "try_pattern L 3 raw mt = (Some dt, es, ws)"
  shows "year dt = (if Y \<ge> year (today L) mod 100 - 20 then Y + year (today L) div 100 * 100
                    else Y + (year (today L) div 100 + 1) * 100)"
  using assms
  by (auto simp: try_pattern_def mk_date_def Let_def split: if_splits option.splits)

text \<open>
  C5, as stated, fails: the pivot at 50 is the rule of \<open>MRZStrategy.extract\<close> only. With
  today 2026-11-04, \<open>_build_date\<close> reads the two-digit year 40 as 1940 (the rule of the
  claim gives 2040-01-01, a future date, which would be returned) and returns nothing, and
  the \<open>YYMMDD\<close> pattern of \<open>_parse_date_with_pivot_and_validation\<close> reads
  \<open>500101\<close> as 2050-01-01 (the rule of the claim gives 1950).
\<close>

theorem two_digit_year_counterexample:
  "build_date 1 1 40 (today libs_2026) = None \<and>
   try_pattern libs_2026 3 ''500101'' yymmdd_match =
     (Some \<lparr>year = 2050, month = 1, day = 1\<rparr>, [], [])"
  by (simp add: build_date_def libs_2026_def mk_date_def date_valid_def days_in_month_def
      is_leap_def date_less_def try_pattern_def yymmdd_match_def groups3_def py_int_def strip_def
      is_space_def digit_of_def Let_def)

text \<open>
  C5, amended: each path that expands a two-digit year has its own rule.
  \<^item> \<open>MRZStrategy.extract\<close>: for a string of six digits \<open>YYMMDD\<close>, the date is built
    from the year \<open>2000 + Y\<close> when \<open>Y < 50\<close> and \<open>1900 + Y\<close> otherwise.
  \<^item> \<open>_build_date\<close>: a year below 100 becomes \<open>2000 + y\<close> when
    \<open>y \<le> today.year % 100 + 10\<close> and \<open>1900 + y\<close> otherwise.
  \<^item> the \<open>YYMMDD\<close> pattern of \<open>_parse_date_with_pivot_and_validation\<close>: the year
    becomes \<open>Y\<close> plus the current century when \<open>Y \<ge> today.year % 100 - 20\<close> and
    \<open>Y\<close> plus the next century otherwise.
\<close>

theorem two_digit_year_rules:
  "(length s = 6 \<and> list_all is_digit s \<longrightarrow>
      (\<exists>Y M D. py_int (take 2 s) = Some Y \<and> 0 \<le> Y \<and> Y < 100 \<and>
         py_int (take 2 (drop 2 s)) = Some M \<and> py_int (take 2 (drop 4 s)) = Some D \<and>
         mrz_expiration_date s = mk_date (if Y < 50 then 2000 + Y else 1900 + Y) M D)) \<and>
   (0 \<le> y \<and> y < 100 \<and> build_date d m y tod = Some dt \<longrightarrow>
      year dt = (if y \<le> year tod mod 100 + 10 then 2000 + y else 1900 + y)) \<and>
   (groups3 mt = Some (g1, g2, g3) \<and> py_int g1 = Some Y' \<and>
    try_pattern L 3 raw mt = (Some dt', es, ws) \<longrightarrow>
      year dt' = (if Y' \<ge> year (today L) mod 100 - 20 then Y' + year (today L) div 100 * 100
                  else Y' + (year (today L) div 100 + 1) * 100))"
  using mrz_expiration_date_pivot [of s] build_date_year [of y d m tod dt]
    try_pattern_year [of mt g1 g2 g3 Y' L raw dt' es ws]
  by blast

theorem two_digit_year_rules_witness:
  "length ''490101'' = 6 \<and> list_all is_digit ''490101'' \<and>
   mrz_expiration_date ''490101'' = Some \<lparr>year = 2049, month = 1, day = 1\<rparr> \<and>
   mrz_expiration_date ''500101'' = Some \<lparr>year = 1950, month = 1, day = 1\<rparr> \<and>
   build_date 1 1 30 (today libs_2026) = Some \<lparr>year = 2030, month = 1, day = 1\<rparr> \<and>
   groups3 yymmdd_match = Some (''50'', ''01'', ''01'') \<and> py_int ''50'' = Some 50 \<and>
   try_pattern libs_2026 3 ''500101'' yymmdd_match =
     (Some \<lparr>year = 2050, month = 1, day = 1\<rparr>, [], [])"
  using two_digit_year_rules [where s = "''490101''" and y = 30 and d = 1 and m = 1
      and tod = "today libs_2026" and dt = "\<lparr>year = 2030, month = 1, day = 1\<rparr>"
      and mt = yymmdd_match and ?g1.0 = "''50''" and ?g2.0 = "''01''" and ?g3.0 = "''01''"
      and Y' = 50 and L = libs_2026 and raw = "''500101''"
      and dt' = "\<lparr>year = 2050, month = 1, day = 1\<rparr>" and es = "[]" and ws = "[]"]
  by (simp add: build_date_def libs_2026_def mk_date_def date_valid_def days_in_month_def
      is_leap_def date_less_def try_pattern_def yymmdd_match_def groups3_def py_int_def strip_def
      is_space_def digit_of_def is_digit_def mrz_expiration_date_def Let_def)

section \<open>Validating a parsed date\<close>










section \<open>The United States strategy always raises\<close>


lemma us_return_raises: "us_return n e c = Inl (AttributeError ''errors'')"
  by (simp add: us_return_def strategy_attributes_def)

lemma us_text_stage_cases:
  "(\<exists>r bk'. us_text_stage L text n e bk = (Inr r, bk')) \<or>
   (\<exists>bk'. us_text_stage L text n e bk =
      (Inl (TypeError ''sequence item: expected str instance''), bk'))"
  by (auto simp: us_text_stage_def Let_def split: option.splits list.splits prod.splits if_splits)

lemma us_extract_cases:
  assumes "text \<noteq> []"
  shows "fst (USPassportStrategy_extract L text mrz_data file_path bk) =
           Inl (AttributeError ''errors'') \<or>
         fst (USPassportStrategy_extract L text mrz_data file_path bk) =
           Inl (TypeError ''sequence item: expected str instance'')"
proof -
  obtain n e bk1 where a:
    "(case mrz_data of None \<Rightarrow> ((None, None), bk) | Some md \<Rightarrow> us_mrz_stage L md bk) =
       ((n, e), bk1)"
    by (metis prod.exhaust)
  show ?thesis
    using us_text_stage_cases [of L "text" n e bk1] assms a
    by (auto simp: USPassportStrategy_extract_def us_return_raises split: prod.splits)
qed

lemma us_extract_raises:
  "\<exists>e. fst (USPassportStrategy_extract L text mrz_data file_path bk) = Inl e"
proof (cases "text = []")
  case True
  then show ?thesis by (simp add: USPassportStrategy_extract_def)
next
  case False
  then show ?thesis using us_extract_cases [of "text" L mrz_data file_path bk] by auto
qed

lemma overwrite_raises:
  assumes "fst (extract_of L X MRZStrategy text mrz_data None init_book) = Inr r1"
    "fst (extract_of L X GenericStrategy text mrz_data None init_book) = Inr r2"
    "or_str (issued_country r1) (issued_country r2) = Some ''USA''"
  shows "\<exists>e. extract_with_country_overwrite L X text mrz_data = Inl e"
proof -
  obtain e where "fst (extract_of L X USPassportStrategy text mrz_data None init_book) = Inl e"
    using us_extract_raises [of L "text" mrz_data None init_book] by (auto simp: extract_of_def)
  then show ?thesis using assms
    by (simp add: extract_with_country_overwrite_def country_strategies_def Let_def)
qed

text \<open>
  C10: \<open>USPassportStrategy.extract\<close> never returns a result. For an empty text it raises
  ValueError; for a non-empty text every run ends in an exception, which is the
  AttributeError of reading \<open>self.errors\<close> in the \<open>return\<close> statement unless the join of
  the date groups has raised before; the \<open>return\<close> statement raises that AttributeError
  whatever it is given. So \<open>extract_with_country_overwrite\<close> raises whenever the MRZ and
  Generic strategies return and the merged issuing country is \<open>USA\<close>.
\<close>

theorem USPassportStrategy_extract_raises:
  "(\<exists>e. fst (USPassportStrategy_extract L text mrz_data file_path bk) = Inl e) \<and>
   (text \<noteq> [] \<longrightarrow>
      fst (USPassportStrategy_extract L text mrz_data file_path bk) =
        Inl (AttributeError ''errors'') \<or>
      fst (USPassportStrategy_extract L text mrz_data file_path bk) =
        Inl (TypeError ''sequence item: expected str instance'')) \<and>
   us_return num expiry country = Inl (AttributeError ''errors'') \<and>
   (fst (extract_of L X MRZStrategy text mrz_data None init_book) = Inr r1 \<and>
    fst (extract_of L X GenericStrategy text mrz_data None init_book) = Inr r2 \<and>
    or_str (issued_country r1) (issued_country r2) = Some ''USA'' \<longrightarrow>
      (\<exists>e. extract_with_country_overwrite L X text mrz_data = Inl e))"
  using us_extract_raises [of L "text" mrz_data file_path bk]
    us_extract_cases [of "text" L mrz_data file_path bk]
    us_return_raises [of num expiry country]
    overwrite_raises [of L X "text" mrz_data r1 r2]
  by blast

theorem USPassportStrategy_extract_raises_witness:
  "''P<USA'' \<noteq> [] \<and>
   fst (USPassportStrategy_extract libs_2026 ''P<USA'' None None init_book) =
     Inl (AttributeError ''errors'') \<and>
   fst (extract_of libs_2026 example_extracts MRZStrategy ''P<USA'' None None init_book) =
     Inr example_usa_result \<and>
   fst (extract_of libs_2026 example_extracts GenericStrategy ''P<USA'' None None init_book) =
     Inr example_usa_result \<and>
   or_str (issued_country example_usa_result) (issued_country example_usa_result) =
     Some ''USA'' \<and>
   extract_with_country_overwrite libs_2026 example_extracts ''P<USA'' None =
     Inl (AttributeError ''errors'')"
  using USPassportStrategy_extract_raises [of libs_2026 "''P<USA''" None None init_book
      None None None example_extracts example_usa_result example_usa_result]
  by (simp add: USPassportStrategy_extract_def us_text_stage_def re_search_def libs_2026_def
      validate_country_code_def isalpha_def isupper_def is_upper_letter_def
      is_lower_letter_def us_return_def strategy_attributes_def extract_of_def
      extract_with_country_overwrite_def country_strategies_def example_extracts_def
      example_usa_result_def or_str_def truthy_def)

end
